theory Spec2Isabelle
  imports Complex_Main
begin

section \<open>Python values and exceptions\<close>

text \<open>
  Exceptions are values. \<open>External\<close> stands for whatever an outside collaborator
  raises (network, storage, database, audio codec); its text names the collaborator.
\<close>

datatype py_error =
    TypeError
  | AttributeError
  | IndexError
  | ValueError string
  | External string

text \<open>
  A \<open>datetime.datetime\<close>: an instant in microseconds, and whether the object carries a
  time zone. \<open>datetime.now()\<close> is naive; the document store hands out aware ones.
\<close>

record datetime =
  micros :: int
  aware :: bool

text \<open>
  The values a field of a user document holds, as far as the program looks at them.
  The payload of a float is kept exact: the program never reads it.
\<close>

datatype py_value =
    PyNone
  | PyBool bool
  | PyInt int
  | PyFloat rat
  | PyStr string
  | PyDatetime datetime

text \<open>Python's truth value of an object, as \<open>not x\<close> tests it.\<close>

fun truthy :: "py_value \<Rightarrow> bool" where
  "truthy PyNone = False"
| "truthy (PyBool b) = b"
| "truthy (PyInt n) = (n \<noteq> 0)"
| "truthy (PyFloat x) = (x \<noteq> 0)"
| "truthy (PyStr s) = (s \<noteq> [])"
| "truthy (PyDatetime d) = True"

text \<open>
  \<open>hasattr(x, 'timestamp')\<close>: among these values only a datetime has the method
  \<open>timestamp\<close>.
\<close>

fun hasattr_timestamp :: "py_value \<Rightarrow> bool" where
  "hasattr_timestamp (PyDatetime d) = True"
| "hasattr_timestamp v = False"

text \<open>
  \<open>d.timestamp()\<close> gives a float, the POSIX seconds. For an aware datetime it is a
  subtraction and always returns. A naive datetime is read as local time, here UTC:
  the conversion also looks at the local time one day earlier, which lies in year 0
  during the first day of year 1, and then raises \<open>ValueError\<close>.
  \<open>datetime_min_micros\<close> is 0001-01-01 00:00:00 in microseconds from the epoch.
\<close>

definition datetime_min_micros :: int where
  "datetime_min_micros = - 62135596800000000"

definition datetime_timestamp :: "datetime \<Rightarrow> py_error + py_value" where
  "datetime_timestamp d =
     (if \<not> aware d \<and> micros d < datetime_min_micros + 86400000000
      then Inl (ValueError ''year 0 is out of range'')
      else Inr (PyFloat (of_int (micros d) / 1000000)))"

text \<open>
  \<open>a - b\<close> for a datetime \<open>a\<close>, read as a timedelta in microseconds. A datetime
  subtracts from a datetime of the same kind (both naive or both aware); a number, a
  string or \<open>None\<close> on the right raises \<open>TypeError\<close>.
\<close>

fun datetime_sub :: "datetime \<Rightarrow> py_value \<Rightarrow> py_error + int" where
  "datetime_sub a (PyDatetime b) =
     (if aware a = aware b then Inr (micros a - micros b) else Inl TypeError)"
| "datetime_sub a v = Inl TypeError"

text \<open>\<open>timedelta.days\<close>: whole days, rounded towards minus infinity.\<close>

definition days :: "int \<Rightarrow> int" where
  "days td = td div 86400000000"

section \<open>The user record\<close>

text \<open>
  A user document is a dict with the keys below; a key that is missing is \<open>None\<close> here,
  which is what \<open>dict.get\<close> sees. The preferences are a dict of their own, kept as
  the list of its entries; the data model fills it with flags and a length word, and
  the store can hold any of its values there.
\<close>

record user_data =
  email :: "string option"
  podcastPreferences :: "(string \<times> py_value) list option"
  preferredVoiceId :: "string option"
  lastPodcast :: "py_value option"
  lastPodcastUrl :: "string option"

section \<open>Eligibility Checker\<close>

text \<open>
  Lines 246 to 250: the value is replaced by the result of its \<open>timestamp()\<close> method
  when it has one.
\<close>

definition last_podcast_date_of :: "py_value \<Rightarrow> py_error + py_value" where
  "last_podcast_date_of last_podcast =
     (case last_podcast of
        PyDatetime d \<Rightarrow>
          if hasattr_timestamp last_podcast then datetime_timestamp d else Inr last_podcast
      | _ \<Rightarrow> Inr last_podcast)"

text \<open>\<open>should_generate_podcast\<close>; \<open>now\<close> is what \<open>datetime.now()\<close> returns.\<close>

definition should_generate_podcast :: "datetime \<Rightarrow> user_data \<Rightarrow> py_error + bool" where
  "should_generate_podcast now ud =
     (case lastPodcast ud of
        None \<Rightarrow> Inr True
      | Some last_podcast \<Rightarrow>
          if \<not> truthy last_podcast then Inr True
          else
            (case last_podcast_date_of last_podcast of
               Inl e \<Rightarrow> Inl e
             | Inr last_podcast_date \<Rightarrow>
                 (case datetime_sub now last_podcast_date of
                    Inl e \<Rightarrow> Inl e
                  | Inr days_since_last \<Rightarrow> Inr (days days_since_last \<ge> 7))))"

section \<open>Script Synthesizer\<close>

text \<open>
  \<open>json.dumps\<close> of the preference dict. A datetime is not JSON-serialisable and raises
  \<open>TypeError\<close>; the other values are written out. The text written is determined by
  the entries, which stand for it here.
\<close>

fun json_serializable :: "py_value \<Rightarrow> bool" where
  "json_serializable (PyDatetime d) = False"
| "json_serializable v = True"

fun json_dumps :: "(string \<times> py_value) list \<Rightarrow> py_error + (string \<times> py_value) list" where
  "json_dumps [] = Inr []"
| "json_dumps ((k, v) # rest) =
     (if json_serializable v then
        (case json_dumps rest of Inl e \<Rightarrow> Inl e | Inr dumped \<Rightarrow> Inr ((k, v) # dumped))
      else Inl TypeError)"

text \<open>
  The prompt (lines 104 to 118, before the \<open>try\<close>) is fixed text around three fields of
  the user's preferences: the email (or a default), the preference structure dumped as
  JSON, and whether a last podcast exists. The backend is a function of these three.
\<close>

record prompt_fields =
  prompt_email :: string
  prompt_preferences :: "(string \<times> py_value) list"
  prompt_last :: string

definition prompt_fields_of :: "user_data \<Rightarrow> py_error + prompt_fields" where
  "prompt_fields_of user_preferences =
     (case json_dumps
             (case podcastPreferences user_preferences of None \<Rightarrow> [] | Some p \<Rightarrow> p) of
        Inl e \<Rightarrow> Inl e
      | Inr dumped \<Rightarrow>
          Inr \<lparr>prompt_email =
                 (case email user_preferences of None \<Rightarrow> ''Community Member'' | Some e \<Rightarrow> e),
               prompt_preferences = dumped,
               prompt_last =
                 (case lastPodcast user_preferences of
                    None \<Rightarrow> ''First-time listener''
                  | Some v \<Rightarrow>
                      if truthy v then ''Previous podcast available''
                      else ''First-time listener'')\<rparr>)"

text \<open>
  The backend's answer: \<open>choices\<close> holds the \<open>message.content\<close> of each choice, which
  may be \<open>None\<close>.
\<close>

record chat_completion =
  choices :: "string option list"

definition get_fallback_script :: string where
  "get_fallback_script =
     ''Well, well, well... if you're listening to this, you've made it through '' @
     ''another week in the markets, and let me tell you, what a week it's been. '' @
     ''Welcome to your personalized Dekr Weekly podcast.'' @
     ''\<newline>\<newline>'' @
     ''Here's the thing about this week - our community absolutely crushed it. We're '' @
     ''talking about 1,250 smart people all looking at the same data and coming to '' @
     ''remarkably similar conclusions. That's not luck, folks, that's collective '' @
     ''intelligence in action.'' @
     ''\<newline>\<newline>'' @
     ''Leading the charge this week is Alex Chen with a 12.5% return and 85.2% '' @
     ''prediction accuracy. That's the kind of consistency that makes Wall Street '' @
     ''take notice. Not to be outdone, Sarah Johnson delivered a solid 9.8% return '' @
     ''with a 78.9% accuracy rate.'' @
     ''\<newline>\<newline>'' @
     ''Here's where it gets interesting - the markets had themselves quite the week. '' @
     ''The S&P 500 gained 2.3%, the NASDAQ popped 3.1%, and here's the kicker - our '' @
     ''community saw it coming. I'm talking about 78% accuracy in the tech sector '' @
     ''alone.'' @
     ''\<newline>\<newline>'' @
     ''Apple and Tesla were the talk of the town this week, with 45 and 38 '' @
     ''recommendations respectively. But here's what's really compelling - these '' @
     ''weren't just blind recommendations. They came with data, with analysis, with '' @
     ''actual reasoning behind them.'' @
     ''\<newline>\<newline>'' @
     ''The Fed's latest move - holding rates steady with some surprisingly dovish '' @
     ''commentary - sent ripples through the financial sector. But our community had '' @
     ''already positioned themselves for exactly this scenario.'' @
     ''\<newline>\<newline>'' @
     ''Here's what I want you to take away from this week's performance: we're not '' @
     ''just building a trading community here, we're building a learning community. '' @
     ''We're building a place where smart people can share ideas, test strategies, '' @
     ''and yes, make money together.'' @
     ''\<newline>\<newline>'' @
     ''The markets will do what the markets do - they'll go up, they'll go down, '' @
     ''they'll make you question everything you thought you knew. But this '' @
     ''community? This community is different. This community is thinking, learning, '' @
     ''and adapting.'' @
     ''\<newline>\<newline>'' @
     ''And that, my friends, is how you build wealth that lasts.'' @
     ''\<newline>\<newline>'' @
     ''Until next week, keep your charts close and your stop-losses closer. This is '' @
     ''your Dekr Weekly, and I'll see you on the trading floor.''"

text \<open>
  Line 131, \<open>response.choices[0].message.content or self.get_fallback_script()\<close>: an
  empty list of choices raises \<open>IndexError\<close>; a content that is \<open>None\<close> or empty gives
  way to the fallback.
\<close>

definition script_of_response :: "chat_completion \<Rightarrow> py_error + string" where
  "script_of_response response =
     (case choices response of
        [] \<Rightarrow> Inl IndexError
      | c # _ \<Rightarrow>
          (case c of
             None \<Rightarrow> Inr get_fallback_script
           | Some s \<Rightarrow> if s \<noteq> [] then Inr s else Inr get_fallback_script))"

text \<open>\<open>try: body except Exception as e: handler\<close>.\<close>

definition try_except :: "py_error + 'a \<Rightarrow> (py_error \<Rightarrow> py_error + 'a) \<Rightarrow> py_error + 'a" where
  "try_except body handler = (case body of Inl e \<Rightarrow> handler e | Inr x \<Rightarrow> Inr x)"

definition generate_podcast_script ::
  "(prompt_fields \<Rightarrow> py_error + chat_completion) \<Rightarrow> user_data \<Rightarrow> py_error + string" where
  "generate_podcast_script create user_preferences =
     (case prompt_fields_of user_preferences of
        Inl e \<Rightarrow> Inl e
      | Inr user_prompt \<Rightarrow>
          try_except
            (case create user_prompt of
               Inl e \<Rightarrow> Inl e
             | Inr response \<Rightarrow> script_of_response response)
            (\<lambda>e. Inr get_fallback_script))"

section \<open>Audio buffers\<close>

text \<open>
  An \<open>AudioSegment\<close> of pydub is measured in milliseconds: \<open>len\<close> counts them, slices and
  positions are in them. It is modelled as the list of its millisecond chunks, a chunk
  being the frames of one millisecond, of type \<open>'c\<close>. The arithmetic on the samples of
  a chunk is floating point inside \<open>audioop\<close>; it is taken as given:
  \<^item> \<open>mul_fade d i\<close>: the chunk scaled by the \<open>i\<close>-th gain step of a fade of \<open>d\<close> ms to -120 dB;
  \<^item> \<open>mul_db g\<close>: the chunk scaled by \<open>g\<close> dB;
  \<^item> \<open>mul_normalize seg\<close>: the chunk scaled by the boost that brings the peak of \<open>seg\<close> to
    0.1 dB below full scale (the chunk itself when \<open>seg\<close> is silent);
  \<^item> \<open>add_frames\<close>: the sum of two chunks, once brought to a common frame format;
  \<^item> \<open>fade_short d\<close>: what \<open>fade_out\<close> makes of a segment shorter than the fade of \<open>d\<close> ms.
\<close>

record 'c audioop =
  silent_ms :: 'c
  mul_fade :: "nat \<Rightarrow> nat \<Rightarrow> 'c \<Rightarrow> 'c"
  mul_db :: "int \<Rightarrow> 'c \<Rightarrow> 'c"
  mul_normalize :: "'c list \<Rightarrow> 'c \<Rightarrow> 'c"
  add_frames :: "'c \<Rightarrow> 'c \<Rightarrow> 'c"
  fade_short :: "nat \<Rightarrow> 'c list \<Rightarrow> 'c list"

text \<open>\<open>AudioSegment.silent(duration)\<close>.\<close>

definition silent :: "'c audioop \<Rightarrow> nat \<Rightarrow> 'c list" where
  "silent ao duration = replicate duration (silent_ms ao)"

text \<open>
  \<open>seg.fade_out(duration)\<close>: the fade ends at the end of the segment and starts
  \<open>duration\<close> ms before; the part before it is kept, each millisecond of the fade is
  scaled by its own step, and nothing follows the end.
\<close>

definition fade_out :: "'c audioop \<Rightarrow> 'c list \<Rightarrow> nat \<Rightarrow> 'c list" where
  "fade_out ao seg duration =
     (let end = length seg in
      if duration \<le> end then
        (let start = end - duration in
         take start seg
         @ map (\<lambda>i. mul_fade ao duration i (seg ! (start + i))) [0..<duration]
         @ drop end seg)
      else fade_short ao duration seg)"

text \<open>\<open>normalize(seg)\<close> of \<open>pydub.effects\<close>.\<close>

definition normalize :: "'c audioop \<Rightarrow> 'c list \<Rightarrow> 'c list" where
  "normalize ao seg = map (mul_normalize ao seg) seg"

text \<open>\<open>seg.apply_gain(g)\<close>; \<open>seg - 6\<close> is \<open>seg.apply_gain(-6)\<close>.\<close>

definition apply_gain :: "'c audioop \<Rightarrow> 'c list \<Rightarrow> int \<Rightarrow> 'c list" where
  "apply_gain ao seg volume_change = map (mul_db ao volume_change) seg"

text \<open>
  \<open>seg1.overlay(seg2, position)\<close>, played once: the receiver up to \<open>position\<close>, then the
  sum of both where they overlap, then the rest of the receiver. The overlaid segment
  is cut to what remains of the receiver, so the result is as long as the receiver.
\<close>

definition overlay :: "'c audioop \<Rightarrow> 'c list \<Rightarrow> 'c list \<Rightarrow> nat \<Rightarrow> 'c list" where
  "overlay ao seg1 seg2 position =
     (let rest = drop position seg1;
          remaining = length rest;
          seg2' = (if length seg2 \<ge> remaining then take remaining seg2 else seg2)
      in take position seg1
         @ map2 (add_frames ao) (take (length seg2') rest) seg2'
         @ drop (length seg2') rest)"

section \<open>Audio Mixer\<close>

definition mix_audio :: "'c audioop \<Rightarrow> 'c list \<Rightarrow> 'c list \<Rightarrow> 'c list" where
  "mix_audio ao intro_audio voice_audio =
     (let intro_faded = fade_out ao intro_audio 3000;
          voice_normalized = normalize ao voice_audio;
          final_audio = overlay ao intro_faded voice_normalized 0;
          intro_volume_adjusted = apply_gain ao intro_faded (- 6);
          final_audio = overlay ao intro_volume_adjusted voice_normalized 0
      in final_audio)"

text \<open>
  The overlay of the specification, in its words: the two buffers are combined by
  summing their signals from position zero on, and the output is as long as the longer
  of the two; what lies beyond the end of the shorter one plays on unchanged.
\<close>

definition spec_overlay :: "'c audioop \<Rightarrow> 'c list \<Rightarrow> 'c list \<Rightarrow> 'c list" where
  "spec_overlay ao base over =
     map2 (add_frames ao) base over
     @ drop (length over) base
     @ drop (length base) over"

text \<open>
  The sequence of section 4.4 of the specification, in its words: fade the intro out
  over 3 seconds, normalize the voice, attenuate the faded intro by 6 dB, overlay the
  normalized voice onto the attenuated intro at position zero.
\<close>

definition canonical_mix :: "'c audioop \<Rightarrow> 'c list \<Rightarrow> 'c list \<Rightarrow> 'c list" where
  "canonical_mix ao intro voice =
     (let intro_faded = fade_out ao intro 3000;
          voice_normalized = normalize ao voice;
          intro_attenuated = apply_gain ao intro_faded (- 6)
      in spec_overlay ao intro_attenuated voice_normalized)"

section \<open>The world outside the program\<close>

type_synonym bytes = string

record http_response =
  status_code :: nat
  body :: bytes

text \<open>
  A Program Record, the dict of step 9. \<open>duration_ms\<close> is \<open>len(final_audio)\<close>, which the
  code divides by 1000; \<open>createdAt\<close> is the time the store assigns.
\<close>

record podcast_data =
  userId :: string
  title :: string
  script_text :: string
  audioUrl :: string
  duration_ms :: nat
  createdAt :: datetime
  voiceId :: string
  introStinger :: string
  status :: string

text \<open>The dict \<open>generate_podcast\<close> returns.\<close>

record podcast_result =
  result_id :: string
  result_userId :: string
  result_audioUrl :: string
  result_duration_ms :: nat
  result_status :: string

text \<open>
  What the program changes: the two collections of the document store, the blobs of the
  bucket (data, and whether public), the temporary files on disk (numbered in the order
  of their creation), and the requests sent to the speech backend (URL and text).
\<close>

record world =
  users :: "string \<rightharpoonup> user_data"
  podcasts :: "(string \<times> podcast_data) list"
  bucket :: "string \<rightharpoonup> bytes \<times> bool"
  temp_files :: "nat list"
  temp_count :: nat
  http_log :: "(string \<times> string) list"

text \<open>
  How the collaborators answer. Each call that can raise has its exception as a
  possible answer:
  \<^item> \<open>chat_create\<close>: the text-generation backend;
  \<^item> \<open>requests_post\<close>: \<open>requests.post\<close> to a URL with a text;
  \<^item> \<open>random_below n\<close>: the index \<open>random.choice\<close> draws from a list of \<open>n\<close> elements;
  \<^item> \<open>intro_file\<close>: \<open>None\<close> when no file is at the path, else what decoding it gives;
  \<^item> \<open>decode_mp3\<close>, \<open>export_mp3\<close>: the codec behind \<open>from_mp3\<close> and \<open>export\<close>;
  \<^item> \<open>pydub_fault\<close>: the exception pydub raises inside \<open>mix_audio\<close>, if any;
  \<^item> \<open>blob_upload\<close>, \<open>blob_make_public\<close>, \<open>public_url\<close>: the bucket;
  \<^item> \<open>doc_get\<close>, \<open>doc_add\<close>, \<open>doc_update\<close>: the document store (\<open>doc_add\<close> returns the new id);
  \<^item> \<open>datetime_now\<close>, \<open>strftime\<close>: \<open>datetime.now()\<close> and its formatting; \<open>server_time\<close>: the
    store's clock;
  \<^item> \<open>users_stream\<close>: the documents \<open>collection('users').stream()\<close> yields, and the
    exception that ends the stream, if any.
\<close>

record 'c env =
  audio :: "'c audioop"
  chat_create :: "prompt_fields \<Rightarrow> py_error + chat_completion"
  requests_post :: "string \<Rightarrow> string \<Rightarrow> py_error + http_response"
  random_below :: "nat \<Rightarrow> nat"
  intro_file :: "string \<Rightarrow> (py_error + 'c list) option"
  decode_mp3 :: "bytes \<Rightarrow> py_error + 'c list"
  export_mp3 :: "'c list \<Rightarrow> py_error + bytes"
  pydub_fault :: "py_error option"
  blob_upload :: "string \<Rightarrow> bytes \<Rightarrow> py_error option"
  blob_make_public :: "string \<Rightarrow> py_error option"
  public_url :: "string \<Rightarrow> string"
  doc_get :: "string \<Rightarrow> py_error option"
  doc_add :: "podcast_data \<Rightarrow> py_error + string"
  doc_update :: "string \<Rightarrow> py_error option"
  datetime_now :: datetime
  strftime :: "string \<Rightarrow> string"
  server_time :: datetime
  users_stream :: "(string \<times> user_data) list \<times> py_error option"

text \<open>
  A statement that reads and changes the world and either returns a value or raises.
  The world is returned in both cases: what was written before an exception stays.
\<close>

type_synonym 'a io = "world \<Rightarrow> (py_error + 'a) \<times> world"

definition io_return :: "'a \<Rightarrow> 'a io" where
  "io_return x = (\<lambda>w. (Inr x, w))"

definition io_raise :: "py_error \<Rightarrow> 'a io" where
  "io_raise e = (\<lambda>w. (Inl e, w))"

definition io_lift :: "py_error + 'a \<Rightarrow> 'a io" where
  "io_lift r = (\<lambda>w. (r, w))"

definition io_bind :: "'a io \<Rightarrow> ('a \<Rightarrow> 'b io) \<Rightarrow> 'b io" where
  "io_bind m f =
     (\<lambda>w. case m w of (Inl e, w') \<Rightarrow> (Inl e, w') | (Inr x, w') \<Rightarrow> f x w')"

section \<open>Voice Synthesizer\<close>

definition elevenlabs_base_url :: string where
  "elevenlabs_base_url = ''https://api.elevenlabs.io/v1''"

text \<open>\<open>response.raise_for_status()\<close>: a status from 400 to 599 raises.\<close>

definition raise_for_status :: "http_response \<Rightarrow> py_error + unit" where
  "raise_for_status response =
     (if 400 \<le> status_code response \<and> status_code response < 600
      then Inl (External ''HTTPError'') else Inr ())"

text \<open>\<open>generate_voice\<close>; its handler logs and raises the exception again.\<close>

definition generate_voice :: "'c env \<Rightarrow> string \<Rightarrow> string \<Rightarrow> bytes io" where
  "generate_voice env script voice_id =
     (\<lambda>w.
        let url = elevenlabs_base_url @ ''/text-to-speech/'' @ voice_id;
            w1 = w\<lparr>http_log := http_log w @ [(url, script)]\<rparr>
        in (case requests_post env url script of
              Inl e \<Rightarrow> (Inl e, w1)
            | Inr response \<Rightarrow>
                (case raise_for_status response of
                   Inl e \<Rightarrow> (Inl e, w1)
                 | Inr u \<Rightarrow> (Inr (body response), w1))))"

section \<open>Intro selection and loading\<close>

definition intro_stingers :: "string list" where
  "intro_stingers = [''Podcast Intro.mp3'', ''Fashion Podcast Intro.mp3'']"

definition intro_dir :: string where
  "intro_dir = ''/mnt/data''"

definition select_random_intro :: "'c env \<Rightarrow> string" where
  "select_random_intro env =
     intro_stingers ! (random_below env (length intro_stingers) mod length intro_stingers)"

definition load_intro_audio :: "'c env \<Rightarrow> string \<Rightarrow> py_error + 'c list" where
  "load_intro_audio env intro_filename =
     (let intro_path = intro_dir @ ''/'' @ intro_filename in
      case intro_file env intro_path of
        None \<Rightarrow> Inr (silent (audio env) 3000)
      | Some decoded \<Rightarrow> decoded)"

section \<open>Publisher: the upload\<close>

definition upload_to_firebase_storage :: "'c env \<Rightarrow> string \<Rightarrow> bytes \<Rightarrow> string io" where
  "upload_to_firebase_storage env uid audio_data =
     (\<lambda>w.
        let stamp = strftime env ''%Y%m%d_%H%M%S'';
            filename = ''podcast_'' @ stamp @ ''.mp3'';
            blob_path = ''podcasts/'' @ uid @ ''/'' @ filename
        in (case blob_upload env blob_path audio_data of
              Some e \<Rightarrow> (Inl e, w)
            | None \<Rightarrow>
                (let w1 = w\<lparr>bucket := (bucket w)(blob_path \<mapsto> (audio_data, False))\<rparr> in
                 case blob_make_public env blob_path of
                   Some e \<Rightarrow> (Inl e, w1)
                 | None \<Rightarrow>
                     (Inr (public_url env blob_path),
                      w1\<lparr>bucket := (bucket w1)(blob_path \<mapsto> (audio_data, True))\<rparr>))))"

section \<open>The single-user pipeline\<close>

text \<open>Step 1: the user document, \<open>ValueError\<close> when there is none.\<close>

definition get_user :: "'c env \<Rightarrow> string \<Rightarrow> user_data io" where
  "get_user env uid =
     (\<lambda>w. case doc_get env uid of
             Some e \<Rightarrow> (Inl e, w)
           | None \<Rightarrow>
               (case users w uid of
                  None \<Rightarrow> (Inl (ValueError (''User '' @ uid @ '' not found'')), w)
                | Some user_data \<Rightarrow> (Inr user_data, w)))"

text \<open>
  Step 5: a named temporary file that is not deleted on close receives the voice
  bytes, is decoded, and is unlinked after the decoding.
\<close>

definition decode_voice :: "'c env \<Rightarrow> bytes \<Rightarrow> 'c list io" where
  "decode_voice env voice_audio_data =
     (\<lambda>w.
        let temp_voice = temp_count w;
            w1 = w\<lparr>temp_files := temp_files w @ [temp_voice], temp_count := temp_count w + 1\<rparr>
        in (case decode_mp3 env voice_audio_data of
              Inl e \<Rightarrow> (Inl e, w1)
            | Inr voice_audio \<Rightarrow>
                (Inr voice_audio, w1\<lparr>temp_files := removeAll temp_voice (temp_files w1)\<rparr>)))"

text \<open>Step 6: \<open>mix_audio\<close>, unless pydub raises inside it.\<close>

definition mix_step :: "'c env \<Rightarrow> 'c list \<Rightarrow> 'c list \<Rightarrow> py_error + 'c list" where
  "mix_step env intro_audio voice_audio =
     (case pydub_fault env of
        Some e \<Rightarrow> Inl e
      | None \<Rightarrow> Inr (mix_audio (audio env) intro_audio voice_audio))"

text \<open>
  Step 7: a second such temporary file receives the export, is read back, and is
  unlinked after the reading.
\<close>

definition export_final :: "'c env \<Rightarrow> 'c list \<Rightarrow> bytes io" where
  "export_final env final_audio =
     (\<lambda>w.
        let temp_final = temp_count w;
            w1 = w\<lparr>temp_files := temp_files w @ [temp_final], temp_count := temp_count w + 1\<rparr>
        in (case export_mp3 env final_audio of
              Inl e \<Rightarrow> (Inl e, w1)
            | Inr final_audio_data \<Rightarrow>
                (Inr final_audio_data,
                 w1\<lparr>temp_files := removeAll temp_final (temp_files w1)\<rparr>)))"

text \<open>Step 9: the Program Record.\<close>

definition default_voice_id :: string where
  "default_voice_id = ''vDchjyOZZytffNeZXfZK''"

definition make_podcast_data ::
  "'c env \<Rightarrow> string \<Rightarrow> string \<Rightarrow> string \<Rightarrow> 'c list \<Rightarrow> string \<Rightarrow> string \<Rightarrow> podcast_data" where
  "make_podcast_data env uid script audio_url final_audio voice_id intro_filename =
     \<lparr>userId = uid,
      title = ''Weekly Market Update - '' @ strftime env ''%B %d, %Y'',
      script_text = script,
      audioUrl = audio_url,
      duration_ms = length final_audio,
      createdAt = server_time env,
      voiceId = voice_id,
      introStinger = intro_filename,
      status = ''completed''\<rparr>"

text \<open>Step 10: the record is added to the collection and its new id returned.\<close>

definition add_podcast :: "'c env \<Rightarrow> podcast_data \<Rightarrow> string io" where
  "add_podcast env podcast =
     (\<lambda>w. case doc_add env podcast of
             Inl e \<Rightarrow> (Inl e, w)
           | Inr podcast_id \<Rightarrow>
               (Inr podcast_id, w\<lparr>podcasts := podcasts w @ [(podcast_id, podcast)]\<rparr>))"

text \<open>
  Step 11: the last-generation fields of the user document; updating a document that
  does not exist raises.
\<close>

definition update_user :: "'c env \<Rightarrow> string \<Rightarrow> string \<Rightarrow> unit io" where
  "update_user env uid audio_url =
     (\<lambda>w. case doc_update env uid of
             Some e \<Rightarrow> (Inl e, w)
           | None \<Rightarrow>
               (case users w uid of
                  None \<Rightarrow> (Inl (External ''NotFound''), w)
                | Some user_data \<Rightarrow>
                    (Inr (),
                     w\<lparr>users := (users w)(uid \<mapsto>
                          user_data\<lparr>lastPodcast := Some (PyDatetime (server_time env)),
                                    lastPodcastUrl := Some audio_url\<rparr>)\<rparr>)))"

text \<open>
  Steps 1 to 7 of \<open>generate_podcast\<close>: everything up to the encoded audio. The result
  holds the script, the voice id, the intro name, the mixed audio and its bytes.
\<close>

definition produce_audio ::
  "'c env \<Rightarrow> string \<Rightarrow> (string \<times> string \<times> string \<times> 'c list \<times> bytes) io" where
  "produce_audio env uid =
     io_bind (get_user env uid) (\<lambda>user_data.
     let voice_id =
           (case preferredVoiceId user_data of None \<Rightarrow> default_voice_id | Some v \<Rightarrow> v) in
     io_bind (io_lift (generate_podcast_script (chat_create env) user_data)) (\<lambda>script.
     io_bind (generate_voice env script voice_id) (\<lambda>voice_audio_data.
     let intro_filename = select_random_intro env in
     io_bind (io_lift (load_intro_audio env intro_filename)) (\<lambda>intro_audio.
     io_bind (decode_voice env voice_audio_data) (\<lambda>voice_audio.
     io_bind (io_lift (mix_step env intro_audio voice_audio)) (\<lambda>final_audio.
     io_bind (export_final env final_audio) (\<lambda>final_audio_data.
     io_return (script, voice_id, intro_filename, final_audio, final_audio_data))))))))"

text \<open>
  \<open>generate_podcast\<close>: steps 1 to 7, then steps 8 to 11. Its handler logs and raises
  the exception again.
\<close>

definition generate_podcast :: "'c env \<Rightarrow> string \<Rightarrow> podcast_result io" where
  "generate_podcast env uid =
     io_bind (produce_audio env uid)
       (\<lambda>(script, voice_id, intro_filename, final_audio, final_audio_data).
     io_bind (upload_to_firebase_storage env uid final_audio_data) (\<lambda>audio_url.
     let podcast =
           make_podcast_data env uid script audio_url final_audio voice_id intro_filename in
     io_bind (add_podcast env podcast) (\<lambda>podcast_id.
     io_bind (update_user env uid audio_url) (\<lambda>u.
     io_return
       \<lparr>result_id = podcast_id,
        result_userId = uid,
        result_audioUrl = audio_url,
        result_duration_ms = duration_ms podcast,
        result_status = ''completed''\<rparr>))))"

section \<open>Batch Runner\<close>

record results =
  generated :: int
  skipped :: int
  errors :: int

text \<open>The body of the loop for one user document, with its own handler.\<close>

definition process_user ::
  "'c env \<Rightarrow> string \<times> user_data \<Rightarrow> results \<times> world \<Rightarrow> results \<times> world" where
  "process_user env user_doc state =
     (let (res, w) = state;
          (uid, user_data) = user_doc
      in case should_generate_podcast (datetime_now env) user_data of
           Inl e \<Rightarrow> (res\<lparr>errors := errors res + 1\<rparr>, w)
         | Inr eligible \<Rightarrow>
             if eligible then
               (case generate_podcast env uid w of
                  (Inl e, w') \<Rightarrow> (res\<lparr>errors := errors res + 1\<rparr>, w')
                | (Inr podcast, w') \<Rightarrow> (res\<lparr>generated := generated res + 1\<rparr>, w'))
             else (res\<lparr>skipped := skipped res + 1\<rparr>, w))"

fun weekly_loop ::
  "'c env \<Rightarrow> (string \<times> user_data) list \<Rightarrow> results \<times> world \<Rightarrow> results \<times> world" where
  "weekly_loop env [] state = state"
| "weekly_loop env (user_doc # rest) state =
     weekly_loop env rest (process_user env user_doc state)"

text \<open>
  \<open>run_weekly_job\<close>: the counters start at zero; an exception of the stream itself
  leaves the loop and is raised again by the outer handler.
\<close>

definition run_weekly_job :: "'c env \<Rightarrow> results io" where
  "run_weekly_job env =
     (\<lambda>w.
        let (docs, stream_error) = users_stream env;
            (res, w') =
              weekly_loop env docs (\<lparr>generated = 0, skipped = 0, errors = 0\<rparr>, w)
        in (case stream_error of
              Some e \<Rightarrow> (Inl e, w')
            | None \<Rightarrow> (Inr res, w')))"

section \<open>A concrete run\<close>

text \<open>
  One environment in which every collaborator answers, used to run the definitions:
  a chunk is one sample, the fade is linear, -6 dB halves a sample, the intro file is
  missing, the voice decodes to five seconds, and the store holds one first-time user.
\<close>

definition sample_audioop :: "int audioop" where
  "sample_audioop =
     \<lparr>silent_ms = 0,
      mul_fade = (\<lambda>d i c. c * (int d - int i) div int d),
      mul_db = (\<lambda>g c. if g = - 6 then c div 2 else c),
      mul_normalize = (\<lambda>seg c. c),
      add_frames = (\<lambda>a b. a + b),
      fade_short = (\<lambda>d seg. seg)\<rparr>"

definition sample_user :: user_data where
  "sample_user =
     \<lparr>email = Some ''test@example.com'',
      podcastPreferences =
        Some [(''includeMarketAnalysis'', PyBool True), (''preferredLength'', PyStr ''medium'')],
      preferredVoiceId = None,
      lastPodcast = None,
      lastPodcastUrl = None\<rparr>"

definition sample_world :: world where
  "sample_world =
     \<lparr>users = [''u1'' \<mapsto> sample_user],
      podcasts = [],
      bucket = Map.empty,
      temp_files = [],
      temp_count = 0,
      http_log = []\<rparr>"

definition sample_env :: "int env" where
  "sample_env =
     \<lparr>audio = sample_audioop,
      chat_create = (\<lambda>p. Inr \<lparr>choices = [Some ''Welcome to your week.'']\<rparr>),
      requests_post = (\<lambda>url text. Inr \<lparr>status_code = 200, body = ''ID3 voice''\<rparr>),
      random_below = (\<lambda>n. 0),
      intro_file = (\<lambda>path. None),
      decode_mp3 = (\<lambda>b. Inr (replicate 5000 1)),
      export_mp3 = (\<lambda>a. Inr ''ID3 mixed''),
      pydub_fault = None,
      blob_upload = (\<lambda>path d. None),
      blob_make_public = (\<lambda>path. None),
      public_url = (\<lambda>path. ''https://storage.googleapis.com/dekr-nextgen.appspot.com/'' @ path),
      doc_get = (\<lambda>uid. None),
      doc_add = (\<lambda>podcast. Inr ''p1''),
      doc_update = (\<lambda>uid. None),
      datetime_now = \<lparr>micros = 1000000000000, aware = False\<rparr>,
      strftime = (\<lambda>fmt. if fmt = ''%Y%m%d_%H%M%S'' then ''20240101_120000'' else ''January 01, 2024''),
      server_time = \<lparr>micros = 1000000000000, aware = True\<rparr>,
      users_stream =
        ([(''u1'', sample_user),
          (''u2'', sample_user\<lparr>lastPodcast := Some (PyDatetime \<lparr>micros = 136000000000, aware = True\<rparr>)\<rparr>),
          (''u3'', sample_user)],
         None)\<rparr>"

section \<open>Properties of the Eligibility Checker\<close>

lemma last_podcast_date_of_not_datetime:
  "last_podcast_date_of v \<noteq> Inr (PyDatetime d)"
  by (cases v) (simp_all add: last_podcast_date_of_def datetime_timestamp_def)

lemma datetime_sub_last_podcast_date:
  "last_podcast_date_of v = Inr x \<Longrightarrow> datetime_sub now x = Inl TypeError"
  by (cases v) (auto simp: last_podcast_date_of_def datetime_timestamp_def split: if_splits)

text \<open>
  What the function computes: \<open>True\<close> for a missing or falsy value, an exception for
  every other value (the \<open>ValueError\<close> of \<open>timestamp()\<close>, else the \<open>TypeError\<close> of the
  subtraction); it never returns \<open>False\<close>.
\<close>

lemma should_generate_podcast_eq:
  "should_generate_podcast now ud =
     (case lastPodcast ud of
        None \<Rightarrow> Inr True
      | Some v \<Rightarrow>
          if truthy v then
            (case last_podcast_date_of v of Inl e \<Rightarrow> Inl e | Inr x \<Rightarrow> Inl TypeError)
          else Inr True)"
  by (auto simp: should_generate_podcast_def datetime_sub_last_podcast_date
      split: option.splits sum.splits)

lemma should_generate_podcast_never_False:
  "should_generate_podcast now ud \<noteq> Inr False"
  by (auto simp: should_generate_podcast_eq split: option.splits sum.splits)

text \<open>
  C2. The claim: a last-generation value at least 7 days in the past is eligible, a
  later one is not. On the code, a user whose last podcast the store stamped ten days
  ago is not found eligible: the subtraction of the float from \<open>now\<close> raises.
\<close>

theorem should_generate_podcast_ten_days_raises:
  "should_generate_podcast \<lparr>micros = 1000000000000, aware = False\<rparr>
     \<lparr>email = None, podcastPreferences = None, preferredVoiceId = None,
      lastPodcast = Some (PyDatetime \<lparr>micros = 136000000000, aware = True\<rparr>),
      lastPodcastUrl = None\<rparr>
   = Inl TypeError"
  by (simp add: should_generate_podcast_def last_podcast_date_of_def datetime_timestamp_def
      datetime_min_micros_def)

text \<open>
  C3. The claim: the checker returns a boolean for every value. On the code a raw
  number of elapsed days and a naive timestamp both end in \<open>TypeError\<close>.
\<close>

theorem should_generate_podcast_raises_on_values:
  "should_generate_podcast \<lparr>micros = 1000000000000, aware = False\<rparr>
     \<lparr>email = None, podcastPreferences = None, preferredVoiceId = None,
      lastPodcast = Some (PyInt 3), lastPodcastUrl = None\<rparr>
   = Inl TypeError
   \<and> should_generate_podcast \<lparr>micros = 1000000000000, aware = False\<rparr>
     \<lparr>email = None, podcastPreferences = None, preferredVoiceId = None,
      lastPodcast = Some (PyDatetime \<lparr>micros = 913600000000, aware = False\<rparr>),
      lastPodcastUrl = None\<rparr>
   = Inl TypeError"
  by (simp add: should_generate_podcast_def last_podcast_date_of_def datetime_timestamp_def
      datetime_min_micros_def)

section \<open>Properties of the Script Synthesizer\<close>





section \<open>Properties of the Audio Mixer\<close>

lemma length_fade_out:
  "duration \<le> length seg \<Longrightarrow> length (fade_out ao seg duration) = length seg"
  by (simp add: fade_out_def Let_def)

lemma length_normalize: "length (normalize ao seg) = length seg"
  by (simp add: normalize_def)

lemma length_apply_gain: "length (apply_gain ao seg g) = length seg"
  by (simp add: apply_gain_def)

lemma length_overlay: "length (overlay ao seg1 seg2 position) = length seg1"
  by (auto simp: overlay_def Let_def min_def)

text \<open>
  The mix is as long as the faded intro, whatever the voice: the overlay keeps the
  length of its receiver, which is the intro.
\<close>

lemma length_mix_audio_faded:
  "length (mix_audio ao intro voice) = length (fade_out ao intro 3000)"
  by (simp add: mix_audio_def Let_def length_overlay length_apply_gain)

lemma length_mix_audio:
  "3000 \<le> length intro \<Longrightarrow> length (mix_audio ao intro voice) = length intro"
  by (simp add: length_mix_audio_faded length_fade_out)

text \<open>
  C1. The claim: the mix is as long as the longer input, so at least as long as the
  voice. On the code, three seconds of silence for a missing intro and a voice of five
  seconds give a mix of three seconds.
\<close>

theorem mix_audio_cuts_voice:
  "length (mix_audio ao (silent ao 3000) (silent ao 5000)) = 3000
   \<and> length (silent ao 5000) = 5000"
  by (simp add: length_mix_audio silent_def)

text \<open>
  The first overlay of \<open>mix_audio\<close> has no effect: its result is dropped and no buffer
  is changed in place, so the mixer is one fade, one normalization, one attenuation and
  one overlay, the overlay being pydub's.
\<close>

lemma mix_audio_single_overlay:
  "mix_audio ao intro voice =
     overlay ao (apply_gain ao (fade_out ao intro 3000) (- 6)) (normalize ao voice) 0"
  by (simp add: mix_audio_def Let_def)

lemma length_spec_overlay:
  "length (spec_overlay ao base over) = max (length base) (length over)"
  by (auto simp: spec_overlay_def)

lemma length_canonical_mix:
  "length (canonical_mix ao intro voice) = max (length (fade_out ao intro 3000)) (length voice)"
  by (simp add: canonical_mix_def Let_def length_spec_overlay length_apply_gain length_normalize)

text \<open>Where the voice is not longer than the receiver, the two overlays agree.\<close>

lemma zip_take_length_right: "zip (take (length ys) xs) ys = zip xs ys"
proof (induction xs arbitrary: ys)
  case Nil
  then show ?case by simp
next
  case (Cons x xs)
  then show ?case by (cases ys) simp_all
qed

lemma overlay_eq_spec_overlay:
  "length over \<le> length base \<Longrightarrow> overlay ao base over 0 = spec_overlay ao base over"
  by (simp add: overlay_def spec_overlay_def Let_def zip_take_length_right)

lemma mix_audio_canonical_when_voice_fits:
  "length voice \<le> length (fade_out ao intro 3000) \<Longrightarrow>
     mix_audio ao intro voice = canonical_mix ao intro voice"
  by (simp add: mix_audio_single_overlay canonical_mix_def Let_def overlay_eq_spec_overlay
      length_apply_gain length_normalize)

text \<open>
  C7. The claim: for every pair of buffers the mixer gives the result of the sequence
  of section 4.4, whose overlay is as long as the longer input. On the code, with three
  seconds of silence as intro and a voice of five seconds, the canonical sequence gives
  five seconds and the mixer three: the two results differ.
\<close>

theorem mix_audio_differs_from_canonical:
  "length (canonical_mix ao (silent ao 3000) (silent ao 5000)) = 5000
   \<and> length (mix_audio ao (silent ao 3000) (silent ao 5000)) = 3000
   \<and> mix_audio ao (silent ao 3000) (silent ao 5000)
       \<noteq> canonical_mix ao (silent ao 3000) (silent ao 5000)"
proof -
  have c: "length (canonical_mix ao (silent ao 3000) (silent ao 5000)) = 5000"
    by (simp add: length_canonical_mix length_fade_out silent_def)
  have m: "length (mix_audio ao (silent ao 3000) (silent ao 5000)) = 3000"
    by (simp add: length_mix_audio silent_def)
  have "mix_audio ao (silent ao 3000) (silent ao 5000)
       \<noteq> canonical_mix ao (silent ao 3000) (silent ao 5000)"
  proof
    assume "mix_audio ao (silent ao 3000) (silent ao 5000)
       = canonical_mix ao (silent ao 3000) (silent ao 5000)"
    then have "length (mix_audio ao (silent ao 3000) (silent ao 5000))
       = length (canonical_mix ao (silent ao 3000) (silent ao 5000))"
      by simp
    with c m show False by simp
  qed
  with c m show ?thesis by simp
qed

section \<open>Properties of the single-user pipeline\<close>

lemma io_bind_Inl: "m w = (Inl e, w1) \<Longrightarrow> io_bind m f w = (Inl e, w1)"
  by (simp add: io_bind_def)

lemma io_bind_Inr: "m w = (Inr x, w1) \<Longrightarrow> io_bind m f w = f x w1"
  by (simp add: io_bind_def)

lemma io_bind_lift_Inl: "r = Inl e \<Longrightarrow> io_bind (io_lift r) f w = (Inl e, w)"
  by (simp add: io_bind_def io_lift_def)

lemma io_bind_lift_Inr: "r = Inr x \<Longrightarrow> io_bind (io_lift r) f w = f x w"
  by (simp add: io_bind_def io_lift_def)

text \<open>What each step leaves untouched.\<close>

lemma get_user_frame: "snd (get_user env uid w) = w"
  by (simp add: get_user_def split: option.splits)

lemma generate_voice_frame:
  "snd (generate_voice env s v w) = w\<lparr>http_log := http_log w @ [(elevenlabs_base_url @ ''/text-to-speech/'' @ v, s)]\<rparr>"
  by (simp add: generate_voice_def Let_def split: sum.splits)

lemma decode_voice_frame:
  "podcasts (snd (decode_voice env b w)) = podcasts w
   \<and> users (snd (decode_voice env b w)) = users w
   \<and> bucket (snd (decode_voice env b w)) = bucket w
   \<and> http_log (snd (decode_voice env b w)) = http_log w"
  by (simp add: decode_voice_def Let_def split: sum.splits)

lemma export_final_frame:
  "podcasts (snd (export_final env a w)) = podcasts w
   \<and> users (snd (export_final env a w)) = users w
   \<and> bucket (snd (export_final env a w)) = bucket w
   \<and> http_log (snd (export_final env a w)) = http_log w"
  by (simp add: export_final_def Let_def split: sum.splits)

lemma upload_frame:
  "podcasts (snd (upload_to_firebase_storage env uid d w)) = podcasts w
   \<and> users (snd (upload_to_firebase_storage env uid d w)) = users w
   \<and> http_log (snd (upload_to_firebase_storage env uid d w)) = http_log w"
  by (simp add: upload_to_firebase_storage_def Let_def split: option.splits)

lemma io_bind_snd_cases:
  "snd (io_bind m f w) = (case m w of (Inl e, w1) \<Rightarrow> w1 | (Inr x, w1) \<Rightarrow> snd (f x w1))"
  by (simp add: io_bind_def split: prod.splits sum.splits)


lemma get_user_run: "get_user env uid w = (r, w1) \<Longrightarrow> w1 = w"
  using get_user_frame [of env uid w] by simp

lemma generate_voice_run:
  "generate_voice env s v w = (r, w1) \<Longrightarrow>
     w1 = w\<lparr>http_log := http_log w @ [(elevenlabs_base_url @ ''/text-to-speech/'' @ v, s)]\<rparr>"
  using generate_voice_frame [of env s v w] by simp

lemma decode_voice_run:
  "decode_voice env b w = (r, w1) \<Longrightarrow>
     podcasts w1 = podcasts w \<and> users w1 = users w \<and> bucket w1 = bucket w
     \<and> http_log w1 = http_log w"
  using decode_voice_frame [of env b w] by simp

lemma export_final_run:
  "export_final env a w = (r, w1) \<Longrightarrow>
     podcasts w1 = podcasts w \<and> users w1 = users w \<and> bucket w1 = bucket w
     \<and> http_log w1 = http_log w"
  using export_final_frame [of env a w] by simp

lemma produce_audio_frame:
  "podcasts (snd (produce_audio env uid w)) = podcasts w
   \<and> users (snd (produce_audio env uid w)) = users w
   \<and> bucket (snd (produce_audio env uid w)) = bucket w"
  unfolding produce_audio_def io_bind_def io_lift_def io_return_def Let_def
  by (auto split: prod.splits sum.splits
      dest!: get_user_run generate_voice_run decode_voice_run export_final_run)


text \<open>A step of the run that raises makes steps 1 to 7 raise.\<close>

lemma produce_audio_voice_raises:
  assumes "get_user env uid w = (Inr user_data, w0)"
    and "generate_podcast_script (chat_create env) user_data = Inr script"
    and "generate_voice env script
           (case preferredVoiceId user_data of None \<Rightarrow> default_voice_id | Some v \<Rightarrow> v) w0
         = (Inl e, w1)"
  shows "produce_audio env uid w = (Inl e, w1)"
  by (simp add: produce_audio_def io_bind_def io_lift_def Let_def assms)

lemma produce_audio_mix_raises:
  assumes "get_user env uid w = (Inr user_data, w0)"
    and "generate_podcast_script (chat_create env) user_data = Inr script"
    and "generate_voice env script
           (case preferredVoiceId user_data of None \<Rightarrow> default_voice_id | Some v \<Rightarrow> v) w0
         = (Inr voice_audio_data, w1)"
    and "load_intro_audio env (select_random_intro env) = Inr intro_audio"
    and "decode_voice env voice_audio_data w1 = (Inr voice_audio, w2)"
    and "mix_step env intro_audio voice_audio = Inl e"
  shows "produce_audio env uid w = (Inl e, w2)"
  by (simp add: produce_audio_def io_bind_def io_lift_def Let_def assms)

lemma generate_podcast_stops_before_records:
  assumes "isl (fst (produce_audio env uid w))
     \<or> (\<exists>x w1. produce_audio env uid w = (Inr x, w1)
          \<and> isl (fst (upload_to_firebase_storage env uid (snd (snd (snd (snd x)))) w1)))"
  shows "isl (fst (generate_podcast env uid w))
     \<and> podcasts (snd (generate_podcast env uid w)) = podcasts w
     \<and> users (snd (generate_podcast env uid w)) = users w"
  using assms
proof
  assume a: "isl (fst (produce_audio env uid w))"
  then obtain e w1 where p: "produce_audio env uid w = (Inl e, w1)"
    by (cases "produce_audio env uid w") (auto simp: isl_def)
  have "generate_podcast env uid w = (Inl e, w1)"
    by (simp add: generate_podcast_def io_bind_def p)
  moreover have "podcasts w1 = podcasts w \<and> users w1 = users w"
    using produce_audio_frame [of env uid w] p by simp
  ultimately show ?thesis by simp
next
  assume "\<exists>x w1. produce_audio env uid w = (Inr x, w1)
          \<and> isl (fst (upload_to_firebase_storage env uid (snd (snd (snd (snd x)))) w1))"
  then obtain x w1 where p: "produce_audio env uid w = (Inr x, w1)"
    and u: "isl (fst (upload_to_firebase_storage env uid (snd (snd (snd (snd x)))) w1))"
    by blast
  obtain s v i fa d where x: "x = (s, v, i, fa, d)" by (cases x) auto
  from u x obtain e w2 where up: "upload_to_firebase_storage env uid d w1 = (Inl e, w2)"
    by (cases "upload_to_firebase_storage env uid d w1") (auto simp: isl_def)
  have "generate_podcast env uid w = (Inl e, w2)"
    using x by (simp add: generate_podcast_def io_bind_def p up)
  moreover have "podcasts w1 = podcasts w \<and> users w1 = users w"
    using produce_audio_frame [of env uid w] p by simp
  moreover have "podcasts w2 = podcasts w1 \<and> users w2 = users w1"
    using upload_frame [of env uid d w1] up by simp
  ultimately show ?thesis by simp
qed

text \<open>
  C6. A Program Record is created only after a successful upload. In a run of
  \<open>generate_podcast\<close> in which voice synthesis raises for the script and voice of that
  run, or \<open>mix_audio\<close> raises for the intro and voice of that run, or any other of the
  steps 1 to 7 raises, or the upload of the bytes of that run raises,
  \<open>generate_podcast\<close> raises, the collection of Program Records is as before, and so
  are the user documents.
\<close>

theorem generate_podcast_no_record_on_failure:
  assumes "(\<exists>user_data w0 script.
              get_user env uid w = (Inr user_data, w0)
              \<and> generate_podcast_script (chat_create env) user_data = Inr script
              \<and> isl (fst (generate_voice env script
                   (case preferredVoiceId user_data of None \<Rightarrow> default_voice_id | Some v \<Rightarrow> v)
                   w0)))
     \<or> (\<exists>user_data w0 script voice_audio_data w1 intro_audio voice_audio w2.
              get_user env uid w = (Inr user_data, w0)
              \<and> generate_podcast_script (chat_create env) user_data = Inr script
              \<and> generate_voice env script
                   (case preferredVoiceId user_data of None \<Rightarrow> default_voice_id | Some v \<Rightarrow> v)
                   w0 = (Inr voice_audio_data, w1)
              \<and> load_intro_audio env (select_random_intro env) = Inr intro_audio
              \<and> decode_voice env voice_audio_data w1 = (Inr voice_audio, w2)
              \<and> isl (mix_step env intro_audio voice_audio))
     \<or> isl (fst (produce_audio env uid w))
     \<or> (\<exists>x w1. produce_audio env uid w = (Inr x, w1)
          \<and> isl (fst (upload_to_firebase_storage env uid (snd (snd (snd (snd x)))) w1)))"
  shows "isl (fst (generate_podcast env uid w))
     \<and> podcasts (snd (generate_podcast env uid w)) = podcasts w
     \<and> users (snd (generate_podcast env uid w)) = users w"
proof -
  have "isl (fst (produce_audio env uid w))
     \<or> (\<exists>x w1. produce_audio env uid w = (Inr x, w1)
          \<and> isl (fst (upload_to_firebase_storage env uid (snd (snd (snd (snd x)))) w1)))"
    using assms
  proof (elim disjE exE conjE)
    fix user_data w0 script
    assume g: "get_user env uid w = (Inr user_data, w0)"
      and s: "generate_podcast_script (chat_create env) user_data = Inr script"
      and v: "isl (fst (generate_voice env script
                   (case preferredVoiceId user_data of None \<Rightarrow> default_voice_id | Some v \<Rightarrow> v)
                   w0))"
    from v obtain e w1 where "generate_voice env script
           (case preferredVoiceId user_data of None \<Rightarrow> default_voice_id | Some v \<Rightarrow> v) w0
         = (Inl e, w1)"
      by (cases "generate_voice env script
           (case preferredVoiceId user_data of None \<Rightarrow> default_voice_id | Some v \<Rightarrow> v) w0")
        (auto simp: isl_def)
    from produce_audio_voice_raises [OF g s this] show ?thesis by simp
  next
    fix user_data w0 script voice_audio_data w1 intro_audio voice_audio w2
    assume g: "get_user env uid w = (Inr user_data, w0)"
      and s: "generate_podcast_script (chat_create env) user_data = Inr script"
      and v: "generate_voice env script
                   (case preferredVoiceId user_data of None \<Rightarrow> default_voice_id | Some v \<Rightarrow> v)
                   w0 = (Inr voice_audio_data, w1)"
      and l: "load_intro_audio env (select_random_intro env) = Inr intro_audio"
      and d: "decode_voice env voice_audio_data w1 = (Inr voice_audio, w2)"
      and m: "isl (mix_step env intro_audio voice_audio)"
    from m obtain e where "mix_step env intro_audio voice_audio = Inl e"
      by (auto simp: isl_def)
    from produce_audio_mix_raises [OF g s v l d this] show ?thesis by simp
  next
    assume "isl (fst (produce_audio env uid w))"
    then show ?thesis by simp
  next
    fix x w1
    assume "produce_audio env uid w = (Inr x, w1)"
      and "isl (fst (upload_to_firebase_storage env uid (snd (snd (snd (snd x)))) w1))"
    then show ?thesis by blast
  qed
  then show ?thesis by (rule generate_podcast_stops_before_records)
qed

text \<open>The definitions a concrete run unfolds.\<close>

lemmas run_defs = generate_podcast_def produce_audio_def io_bind_def io_lift_def io_return_def
  get_user_def generate_podcast_script_def try_except_def script_of_response_def prompt_fields_of_def
  generate_voice_def raise_for_status_def select_random_intro_def intro_stingers_def
  load_intro_audio_def decode_voice_def mix_step_def export_final_def
  upload_to_firebase_storage_def make_podcast_data_def add_podcast_def update_user_def
  default_voice_id_def elevenlabs_base_url_def intro_dir_def

text \<open>
  Three runs for the sample user: the speech backend refuses the script of this run
  (and would accept another), pydub raises while mixing, the bucket refuses the upload.
\<close>

theorem generate_podcast_no_record_on_failure_witness:
  "isl (fst (generate_podcast
       (sample_env\<lparr>requests_post :=
          (\<lambda>url text. if text = ''Welcome to your week.'' then Inl (External ''ConnectionError'')
                       else Inr \<lparr>status_code = 200, body = ''ID3 voice''\<rparr>)\<rparr>)
       ''u1'' sample_world))
   \<and> podcasts (snd (generate_podcast
       (sample_env\<lparr>requests_post :=
          (\<lambda>url text. if text = ''Welcome to your week.'' then Inl (External ''ConnectionError'')
                       else Inr \<lparr>status_code = 200, body = ''ID3 voice''\<rparr>)\<rparr>)
       ''u1'' sample_world)) = []
   \<and> isl (fst (generate_podcast
       (sample_env\<lparr>pydub_fault := Some (External ''TooManyMissingFrames'')\<rparr>) ''u1'' sample_world))
   \<and> users (snd (generate_podcast
       (sample_env\<lparr>pydub_fault := Some (External ''TooManyMissingFrames'')\<rparr>) ''u1'' sample_world))
       = [''u1'' \<mapsto> sample_user]
   \<and> isl (fst (generate_podcast
       (sample_env\<lparr>blob_upload := (\<lambda>path d. Some (External ''Forbidden''))\<rparr>) ''u1'' sample_world))
   \<and> podcasts (snd (generate_podcast
       (sample_env\<lparr>blob_upload := (\<lambda>path d. Some (External ''Forbidden''))\<rparr>) ''u1'' sample_world))
       = []"
proof -
  let ?e1 = "sample_env\<lparr>requests_post :=
          (\<lambda>url text. if text = ''Welcome to your week.'' then Inl (External ''ConnectionError'')
                       else Inr \<lparr>status_code = 200, body = ''ID3 voice''\<rparr>)\<rparr>"
  let ?e2 = "sample_env\<lparr>pydub_fault := Some (External ''TooManyMissingFrames'')\<rparr>"
  let ?e3 = "sample_env\<lparr>blob_upload := (\<lambda>path d. Some (External ''Forbidden''))\<rparr>"
  let ?w1 = "sample_world\<lparr>http_log :=
      [(''https://api.elevenlabs.io/v1/text-to-speech/vDchjyOZZytffNeZXfZK'', ''Welcome to your week.'')]\<rparr>"
  have v: "get_user ?e1 ''u1'' sample_world = (Inr sample_user, sample_world)
      \<and> generate_podcast_script (chat_create ?e1) sample_user = Inr ''Welcome to your week.''
      \<and> isl (fst (generate_voice ?e1 ''Welcome to your week.''
            (case preferredVoiceId sample_user of None \<Rightarrow> default_voice_id | Some v \<Rightarrow> v)
            sample_world))"
    by (simp add: run_defs sample_env_def sample_world_def sample_user_def Let_def)
  have m: "get_user ?e2 ''u1'' sample_world = (Inr sample_user, sample_world)
      \<and> generate_podcast_script (chat_create ?e2) sample_user = Inr ''Welcome to your week.''
      \<and> generate_voice ?e2 ''Welcome to your week.''
            (case preferredVoiceId sample_user of None \<Rightarrow> default_voice_id | Some v \<Rightarrow> v)
            sample_world = (Inr ''ID3 voice'', ?w1)
      \<and> load_intro_audio ?e2 (select_random_intro ?e2) = Inr (silent sample_audioop 3000)
      \<and> decode_voice ?e2 ''ID3 voice'' ?w1 = (Inr (replicate 5000 1), ?w1\<lparr>temp_count := 1\<rparr>)
      \<and> isl (mix_step ?e2 (silent sample_audioop 3000) (replicate 5000 1))"
    by (simp add: run_defs sample_env_def sample_world_def sample_user_def Let_def)
  have u: "produce_audio ?e3 ''u1'' sample_world
      = (Inr (''Welcome to your week.'', ''vDchjyOZZytffNeZXfZK'', ''Podcast Intro.mp3'',
              mix_audio sample_audioop (silent sample_audioop 3000) (replicate 5000 1),
              ''ID3 mixed''),
         ?w1\<lparr>temp_count := 2\<rparr>)
      \<and> isl (fst (upload_to_firebase_storage ?e3 ''u1'' ''ID3 mixed'' (?w1\<lparr>temp_count := 2\<rparr>)))"
    by (simp add: run_defs sample_env_def sample_world_def sample_user_def Let_def)
  have r1: "isl (fst (generate_podcast ?e1 ''u1'' sample_world))
     \<and> podcasts (snd (generate_podcast ?e1 ''u1'' sample_world)) = podcasts sample_world
     \<and> users (snd (generate_podcast ?e1 ''u1'' sample_world)) = users sample_world"
    by (rule generate_podcast_no_record_on_failure) (use v in blast)
  have r2: "isl (fst (generate_podcast ?e2 ''u1'' sample_world))
     \<and> podcasts (snd (generate_podcast ?e2 ''u1'' sample_world)) = podcasts sample_world
     \<and> users (snd (generate_podcast ?e2 ''u1'' sample_world)) = users sample_world"
    by (rule generate_podcast_no_record_on_failure) (use m in blast)
  have r3: "isl (fst (generate_podcast ?e3 ''u1'' sample_world))
     \<and> podcasts (snd (generate_podcast ?e3 ''u1'' sample_world)) = podcasts sample_world
     \<and> users (snd (generate_podcast ?e3 ''u1'' sample_world)) = users sample_world"
    by (rule generate_podcast_no_record_on_failure) (use u in simp)
  from r1 r2 r3 show ?thesis by (simp add: sample_world_def)
qed

text \<open>
  C9. When steps 1 to 7 have given the audio and the upload has returned its URL, and
  then the creation of the Program Record raises, or it succeeds and the update of the
  user document raises, \<open>generate_podcast\<close> raises that same exception to its caller,
  the bucket is as the upload left it, and the blob is still there, public.
\<close>

theorem generate_podcast_keeps_blob:
  assumes prod: "produce_audio env uid w = (Inr (script, voice_id, intro_filename, final_audio, audio_data), w1)"
    and up: "upload_to_firebase_storage env uid audio_data w1 = (Inr audio_url, w2)"
    and fail: "add_podcast env (make_podcast_data env uid script audio_url final_audio voice_id intro_filename) w2 = (Inl e, w3)
       \<or> (\<exists>podcast_id w2'.
            add_podcast env (make_podcast_data env uid script audio_url final_audio voice_id intro_filename) w2 = (Inr podcast_id, w2')
            \<and> update_user env uid audio_url w2' = (Inl e, w3))"
  shows "generate_podcast env uid w = (Inl e, w3)
     \<and> bucket w3 = bucket w2
     \<and> bucket w3 (''podcasts/'' @ uid @ ''/'' @ ''podcast_'' @ strftime env ''%Y%m%d_%H%M%S'' @ ''.mp3'')
         = Some (audio_data, True)"
proof -
  have b2: "bucket w2 (''podcasts/'' @ uid @ ''/'' @ ''podcast_'' @ strftime env ''%Y%m%d_%H%M%S'' @ ''.mp3'')
         = Some (audio_data, True)"
    using up by (auto simp: upload_to_firebase_storage_def Let_def split: option.splits)
  from fail show ?thesis
  proof
    assume a: "add_podcast env (make_podcast_data env uid script audio_url final_audio voice_id intro_filename) w2 = (Inl e, w3)"
    then have "w3 = w2" by (auto simp: add_podcast_def split: sum.splits)
    moreover have "generate_podcast env uid w = (Inl e, w3)"
      by (simp add: generate_podcast_def io_bind_def prod up a Let_def)
    ultimately show ?thesis using b2 by simp
  next
    assume "\<exists>podcast_id w2'.
            add_podcast env (make_podcast_data env uid script audio_url final_audio voice_id intro_filename) w2 = (Inr podcast_id, w2')
            \<and> update_user env uid audio_url w2' = (Inl e, w3)"
    then obtain podcast_id w2' where
      a: "add_podcast env (make_podcast_data env uid script audio_url final_audio voice_id intro_filename) w2 = (Inr podcast_id, w2')"
      and u: "update_user env uid audio_url w2' = (Inl e, w3)" by blast
    from a have "bucket w2' = bucket w2" by (auto simp: add_podcast_def split: sum.splits)
    moreover from u have "w3 = w2'" by (auto simp: update_user_def split: option.splits)
    moreover have "generate_podcast env uid w = (Inl e, w3)"
      by (simp add: generate_podcast_def io_bind_def prod up a u Let_def)
    ultimately show ?thesis using b2 by simp
  qed
qed


theorem generate_podcast_keeps_blob_witness:
  "fst (generate_podcast (sample_env\<lparr>doc_add := (\<lambda>podcast. Inl (External ''Unavailable''))\<rparr>) ''u1'' sample_world)
     = Inl (External ''Unavailable'')
   \<and> bucket (snd (generate_podcast (sample_env\<lparr>doc_add := (\<lambda>podcast. Inl (External ''Unavailable''))\<rparr>) ''u1'' sample_world))
       ''podcasts/u1/podcast_20240101_120000.mp3''
     = Some (''ID3 mixed'', True)"
proof -
  let ?env = "sample_env\<lparr>doc_add := (\<lambda>podcast. Inl (External ''Unavailable''))\<rparr>"
  let ?final = "mix_audio sample_audioop (silent sample_audioop 3000) (replicate 5000 1)"
  let ?w1 = "sample_world\<lparr>temp_count := 2,
      http_log := [(''https://api.elevenlabs.io/v1/text-to-speech/vDchjyOZZytffNeZXfZK'', ''Welcome to your week.'')]\<rparr>"
  let ?url = "''https://storage.googleapis.com/dekr-nextgen.appspot.com/podcasts/u1/podcast_20240101_120000.mp3''"
  let ?w2 = "?w1\<lparr>bucket := [''podcasts/u1/podcast_20240101_120000.mp3'' \<mapsto> (''ID3 mixed'', True)]\<rparr>"
  have prod: "produce_audio ?env ''u1'' sample_world
      = (Inr (''Welcome to your week.'', ''vDchjyOZZytffNeZXfZK'', ''Podcast Intro.mp3'', ?final, ''ID3 mixed''), ?w1)"
    by (simp add: run_defs sample_env_def sample_world_def sample_user_def Let_def)
  have up: "upload_to_firebase_storage ?env ''u1'' ''ID3 mixed'' ?w1 = (Inr ?url, ?w2)"
    by (simp add: run_defs sample_env_def sample_world_def sample_user_def Let_def)
  have fail: "add_podcast ?env (make_podcast_data ?env ''u1'' ''Welcome to your week.'' ?url ?final ''vDchjyOZZytffNeZXfZK'' ''Podcast Intro.mp3'') ?w2
      = (Inl (External ''Unavailable''), ?w2)"
    by (simp add: add_podcast_def sample_env_def)
  show ?thesis
    using generate_podcast_keeps_blob [OF prod up disjI1, OF fail]
    by (simp add: sample_env_def)
qed

lemma upload_run:
  "upload_to_firebase_storage env uid d w = (r, w1) \<Longrightarrow>
     podcasts w1 = podcasts w \<and> users w1 = users w \<and> http_log w1 = http_log w"
  using upload_frame [of env uid d w] by simp

lemma add_podcast_run:
  "add_podcast env pd w = (r, w1) \<Longrightarrow>
     http_log w1 = http_log w \<and> users w1 = users w \<and> bucket w1 = bucket w
     \<and> (case r of Inl e \<Rightarrow> podcasts w1 = podcasts w
         | Inr pid \<Rightarrow> podcasts w1 = podcasts w @ [(pid, pd)])"
  by (auto simp: add_podcast_def split: sum.splits)

lemma update_user_run:
  "update_user env uid url w = (r, w1) \<Longrightarrow>
     http_log w1 = http_log w \<and> podcasts w1 = podcasts w \<and> bucket w1 = bucket w"
  by (auto simp: update_user_def split: option.splits)

lemma produce_audio_default_voice:
  assumes "users w uid = Some ud" and "preferredVoiceId ud = None"
    and "produce_audio env uid w = (r, w1)"
  shows "(http_log w1 = http_log w
          \<or> (\<exists>s. http_log w1 = http_log w @ [(elevenlabs_base_url @ ''/text-to-speech/'' @ ''vDchjyOZZytffNeZXfZK'', s)]))
     \<and> podcasts w1 = podcasts w
     \<and> (case r of Inl e \<Rightarrow> True
         | Inr x \<Rightarrow> fst (snd x) = ''vDchjyOZZytffNeZXfZK''
             \<and> http_log w1 = http_log w @ [(elevenlabs_base_url @ ''/text-to-speech/'' @ ''vDchjyOZZytffNeZXfZK'', fst x)])"
  using assms
  unfolding produce_audio_def io_bind_def io_lift_def io_return_def Let_def default_voice_id_def
  by (auto split: prod.splits sum.splits option.splits
      simp: get_user_def
      dest!: generate_voice_run decode_voice_run export_final_run)

text \<open>
  C10. For a user document without \<open>preferredVoiceId\<close>: a run sends at most one request
  to the speech backend, and it goes to the URL of the voice \<open>vDchjyOZZytffNeZXfZK\<close>; a
  run adds at most one Program Record, and its voice id is that identifier; a run that
  returns has sent the request and added the record.
\<close>

theorem generate_podcast_default_voice:
  assumes "users w uid = Some ud" and "preferredVoiceId ud = None"
  shows "(http_log (snd (generate_podcast env uid w)) = http_log w
          \<or> (\<exists>s. http_log (snd (generate_podcast env uid w))
                = http_log w @ [(''https://api.elevenlabs.io/v1/text-to-speech/vDchjyOZZytffNeZXfZK'', s)]))
     \<and> (podcasts (snd (generate_podcast env uid w)) = podcasts w
          \<or> (\<exists>podcast_id podcast.
                podcasts (snd (generate_podcast env uid w)) = podcasts w @ [(podcast_id, podcast)]
                \<and> voiceId podcast = ''vDchjyOZZytffNeZXfZK''))
     \<and> (\<not> isl (fst (generate_podcast env uid w)) \<longrightarrow>
          (\<exists>s. http_log (snd (generate_podcast env uid w))
                = http_log w @ [(''https://api.elevenlabs.io/v1/text-to-speech/vDchjyOZZytffNeZXfZK'', s)])
          \<and> (\<exists>podcast_id podcast.
                podcasts (snd (generate_podcast env uid w)) = podcasts w @ [(podcast_id, podcast)]
                \<and> voiceId podcast = ''vDchjyOZZytffNeZXfZK''))"
proof -
  obtain r w1 where p: "produce_audio env uid w = (r, w1)" by (cases "produce_audio env uid w")
  note pa = produce_audio_default_voice [OF assms p]
  show ?thesis
  proof (cases r)
    case (Inl e)
    then have "generate_podcast env uid w = (Inl e, w1)"
      by (simp add: generate_podcast_def io_bind_def p)
    with pa show ?thesis by (auto simp: elevenlabs_base_url_def)
  next
    case (Inr x)
    obtain s v i fa d where x: "x = (s, v, i, fa, d)" by (cases x) auto
    from pa Inr x have v: "v = ''vDchjyOZZytffNeZXfZK''"
      and log: "http_log w1 = http_log w @ [(''https://api.elevenlabs.io/v1/text-to-speech/vDchjyOZZytffNeZXfZK'', s)]"
      and pod: "podcasts w1 = podcasts w"
      by (auto simp: elevenlabs_base_url_def)
    show ?thesis
      using log pod
      unfolding generate_podcast_def io_bind_def io_return_def Let_def p Inr x v
      by (auto split: prod.splits sum.splits
          dest!: upload_run add_podcast_run update_user_run
          simp: make_podcast_data_def)
  qed
qed


theorem generate_podcast_default_voice_witness:
  "(\<exists>s. http_log (snd (generate_podcast sample_env ''u1'' sample_world))
        = [(''https://api.elevenlabs.io/v1/text-to-speech/vDchjyOZZytffNeZXfZK'', s)])
   \<and> (\<exists>podcast_id podcast.
        podcasts (snd (generate_podcast sample_env ''u1'' sample_world)) = [(podcast_id, podcast)]
        \<and> voiceId podcast = ''vDchjyOZZytffNeZXfZK'')"
proof -
  have u: "users sample_world ''u1'' = Some sample_user" by (simp add: sample_world_def)
  have v: "preferredVoiceId sample_user = None" by (simp add: sample_user_def)
  have ok: "\<not> isl (fst (generate_podcast sample_env ''u1'' sample_world))"
    by (simp add: run_defs sample_env_def sample_world_def sample_user_def Let_def)
  have l: "http_log sample_world = []" and p: "podcasts sample_world = []"
    by (simp_all add: sample_world_def)
  show ?thesis
    using generate_podcast_default_voice [OF u v, of sample_env] ok
    by (simp add: l p)
qed

text \<open>
  C8. The claim: every temporary file is deleted on every exit path. On the code, when
  the voice bytes cannot be decoded the voice file stays on disk, and when the mix
  cannot be exported the second file stays: the \<open>unlink\<close> follows the call that raised.
\<close>

theorem generate_podcast_leaves_temp_file:
  "temp_files sample_world = []
   \<and> temp_files (snd (generate_podcast
        (sample_env\<lparr>decode_mp3 := (\<lambda>b. Inl (External ''CouldntDecodeError''))\<rparr>) ''u1'' sample_world))
     = [0]
   \<and> temp_files (snd (generate_podcast
        (sample_env\<lparr>export_mp3 := (\<lambda>a. Inl (External ''CouldntEncodeError''))\<rparr>) ''u1'' sample_world))
     = [1]"
  by (simp add: run_defs sample_env_def sample_world_def sample_user_def Let_def)

text \<open>A run without exception leaves no temporary file.\<close>

lemma temp_files_cleaned_on_success:
  "temp_files (snd (generate_podcast sample_env ''u1'' sample_world)) = []"
  by (simp add: run_defs sample_env_def sample_world_def sample_user_def Let_def)

section \<open>Properties of the Batch Runner\<close>






text \<open>
  The sample stream: the first user gets a podcast, the second has a stored timestamp
  and the checker raises, the third has no document and the pipeline raises.
\<close>

lemma run_weekly_job_sample:
  "fst (run_weekly_job sample_env sample_world) = Inr \<lparr>generated = 1, skipped = 0, errors = 2\<rparr>"
  by (simp add: run_weekly_job_def process_user_def should_generate_podcast_def
      last_podcast_date_of_def datetime_timestamp_def datetime_min_micros_def
      run_defs sample_env_def sample_world_def sample_user_def Let_def)



end
